theory Spec2Isabelle
  imports Main
begin

section \<open>Data model of the transaction service\<close>

text \<open>
  The structs of \<^verbatim>\<open>Assignment3 microservice/main.go\<close>. Go's \<^verbatim>\<open>float64\<close> is the
  type parameter \<open>'f\<close>: the service only ever uses its zero value and its addition, so
  the model asks for nothing but \<open>0\<close> and \<open>+\<close> (no algebraic law is assumed, since
  rounding addition has none to offer). Which values of the type are finite numbers (not
  an infinity, not NaN) is the parameter \<open>isFinite\<close> of the handlers. A
  \<^verbatim>\<open>time.Time\<close> is the instant it denotes, in nanoseconds since the epoch.
\<close>

type_synonym instant = int

record 'f Product =
  ProductName :: string
  Price :: 'f

record Customer =
  CustomerID :: string
  CustomerName :: string
  Email :: string

record 'f Transaction =
  ID :: string
  CartItems :: "'f Product list"
  Customer :: Customer
  Status :: string
  CreatedAt :: instant
  UpdatedAt :: instant
  TotalPrice :: 'f

record PaymentForm =
  CardNumber :: string
  ExpirationDate :: string
  CVV :: string
  HolderName :: string
  Address :: string

subsection \<open>The document store\<close>

text \<open>
  A \<^verbatim>\<open>primitive.ObjectID\<close> is twelve bytes. The \<^verbatim>\<open>_id\<close> of a stored document is
  either an object id the driver generated (the struct's \<^verbatim>\<open>ID\<close> was empty and
  \<^verbatim>\<open>omitempty\<close> left it out) or the string the struct carried.
\<close>

type_synonym ObjectID = "nat list"

datatype docid = OID ObjectID | SID string

text \<open>
  A stored document is represented by the field values the driver decodes from it; the
  collection keeps its documents in insertion order.
\<close>

record 'f document =
  DocId :: docid
  DocCartItems :: "'f Product list"
  DocCustomer :: Customer
  DocStatus :: string
  DocCreatedAt :: instant
  DocUpdatedAt :: instant
  DocTotalPrice :: 'f

text \<open>The receipt written to \<^verbatim>\<open>receipt.pdf\<close>, as the three arguments it is laid out from.\<close>

record 'f receipt =
  ReceiptItems :: "'f Product list"
  ReceiptTotal :: 'f
  ReceiptCount :: nat

text \<open>
  What a handler can change: the collection, the receipt file and the standard output.
\<close>

record 'f world =
  transactionCollection :: "'f document list"
  receiptFile :: "'f receipt option"
  stdout :: "string list"

text \<open>
  What the outside decides during one request: the \<open>k\<close>-th reading of the clock, whether
  the store operation fails (and with which message), the object id the driver would
  generate, whether writing the receipt fails, and after how many documents a cursor
  breaks off (\<open>None\<close>: it delivers all of them).
\<close>

record env =
  timeNow :: "nat \<Rightarrow> instant"
  storeErr :: "string option"
  newObjectID :: ObjectID
  fileErr :: "string option"
  cursorBreak :: "nat option"

subsection \<open>Responses\<close>

datatype 'f body =
    ErrorBody string
  | TransactionBody "'f Transaction"
  | CreatedBody "'f Transaction"
  | TransactionsBody "'f Transaction list"
  | SuccessBody bool
  | NoBody

record 'f response =
  status :: nat
  payload :: "'f body"

definition StatusOK :: nat where
  "StatusOK = 200"

definition StatusBadRequest :: nat where
  "StatusBadRequest = 400"

definition StatusInternalServerError :: nat where
  "StatusInternalServerError = 500"

text \<open>
  \<^verbatim>\<open>c.JSON\<close> sets the status and writes the object as \<^verbatim>\<open>encoding/json\<close> marshals
  it. Marshalling refuses a \<^verbatim>\<open>float64\<close> that is not finite; gin then records the
  error, and the response goes out with the status that was set and no body. Strings and
  booleans always marshal, and so does an instant within the years 0 to 9999, which every
  clock reading is taken to be.
\<close>

definition finiteTransaction :: "('f \<Rightarrow> bool) \<Rightarrow> 'f Transaction \<Rightarrow> bool" where
  "finiteTransaction isFinite t =
     (list_all (\<lambda>item. isFinite (Price item)) (CartItems t) \<and> isFinite (TotalPrice t))"

fun marshals :: "('f \<Rightarrow> bool) \<Rightarrow> 'f body \<Rightarrow> bool" where
  "marshals isFinite (ErrorBody msg) = True"
| "marshals isFinite (TransactionBody t) = finiteTransaction isFinite t"
| "marshals isFinite (CreatedBody t) = finiteTransaction isFinite t"
| "marshals isFinite (TransactionsBody ts) = list_all (finiteTransaction isFinite) ts"
| "marshals isFinite (SuccessBody b) = True"
| "marshals isFinite NoBody = True"

definition JSON :: "('f \<Rightarrow> bool) \<Rightarrow> nat \<Rightarrow> 'f body \<Rightarrow> 'f response" where
  "JSON isFinite code obj =
     \<lparr>status = code, payload = (if marshals isFinite obj then obj else NoBody)\<rparr>"

section \<open>The store driver\<close>

text \<open>BSON keeps a date in milliseconds: an instant is cut down to the millisecond.\<close>

definition bsonTime :: "instant \<Rightarrow> instant" where
  "bsonTime t = (t div 1000000) * 1000000"

definition NilObjectID :: ObjectID where
  "NilObjectID = replicate 12 0"

fun hexDigit :: "char \<Rightarrow> nat option" where
  "hexDigit c =
     (let n = of_char c :: nat in
      if 48 \<le> n \<and> n \<le> 57 then Some (n - 48)
      else if 97 \<le> n \<and> n \<le> 102 then Some (n - 87)
      else if 65 \<le> n \<and> n \<le> 70 then Some (n - 55)
      else None)"

fun hexDecode :: "string \<Rightarrow> nat list option" where
  "hexDecode [] = Some []"
| "hexDecode [c] = None"
| "hexDecode (c # d # s) =
     (case (hexDigit c, hexDigit d, hexDecode s) of
        (Some h, Some l, Some bs) \<Rightarrow> Some ((16 * h + l) # bs)
      | _ \<Rightarrow> None)"

text \<open>
  \<^verbatim>\<open>primitive.ObjectIDFromHex\<close>: the string must be 24 hexadecimal digits; otherwise
  the call reports an error and returns the nil object id.
\<close>

definition ObjectIDFromHex :: "string \<Rightarrow> ObjectID \<times> bool" where
  "ObjectIDFromHex s =
     (if length s \<noteq> 24 then (NilObjectID, False)
      else case hexDecode s of
             None \<Rightarrow> (NilObjectID, False)
           | Some bs \<Rightarrow> (bs, True))"

definition hexChar :: "nat \<Rightarrow> char" where
  "hexChar n = (if n < 10 then char_of (48 + n) else char_of (87 + n))"

fun Hex :: "ObjectID \<Rightarrow> string" where
  "Hex [] = []"
| "Hex (b # bs) = hexChar (b div 16) # hexChar (b mod 16) # Hex bs"

text \<open>Encoding a struct for the store and decoding a stored document into a struct.\<close>

definition encodeDoc :: "docid \<Rightarrow> 'f Transaction \<Rightarrow> 'f document" where
  "encodeDoc i t =
     \<lparr>DocId = i, DocCartItems = CartItems t, DocCustomer = Customer t,
      DocStatus = Status t, DocCreatedAt = bsonTime (CreatedAt t),
      DocUpdatedAt = bsonTime (UpdatedAt t), DocTotalPrice = TotalPrice t\<rparr>"

definition Decode :: "'f document \<Rightarrow> 'f Transaction" where
  "Decode d =
     \<lparr>ID = (case DocId d of OID b \<Rightarrow> Hex b | SID s \<Rightarrow> s),
      CartItems = DocCartItems d, Customer = DocCustomer d, Status = DocStatus d,
      CreatedAt = DocCreatedAt d, UpdatedAt = DocUpdatedAt d,
      TotalPrice = DocTotalPrice d\<rparr>"

text \<open>
  \<^verbatim>\<open>InsertOne\<close>: fails when the store does, or when the \<^verbatim>\<open>_id\<close> is already taken;
  otherwise the document is appended.
\<close>

definition InsertOne ::
  "env \<Rightarrow> 'f document list \<Rightarrow> 'f Transaction \<Rightarrow> string + 'f document list" where
  "InsertOne e coll t =
     (case storeErr e of
        Some msg \<Rightarrow> Inl msg
      | None \<Rightarrow>
          (let i = (if ID t = [] then OID (newObjectID e) else SID (ID t)) in
           if i \<in> set (map DocId coll) then Inl ''duplicate key''
           else Inr (coll @ [encodeDoc i t])))"

text \<open>
  \<^verbatim>\<open>FindOneAndUpdate\<close> with \<^verbatim>\<open>ReturnDocument(After)\<close>, for a filter on \<^verbatim>\<open>_id\<close>
  and an update that is a function on documents: the first document with that
  \<^verbatim>\<open>_id\<close> is replaced by its update, which is returned.
\<close>

fun findAndUpdate ::
  "docid \<Rightarrow> ('f document \<Rightarrow> 'f document) \<Rightarrow> 'f document list
     \<Rightarrow> ('f document \<times> 'f document list) option" where
  "findAndUpdate i u [] = None"
| "findAndUpdate i u (d # ds) =
     (if DocId d = i then Some (u d, u d # ds)
      else case findAndUpdate i u ds of
             None \<Rightarrow> None
           | Some (r, ds') \<Rightarrow> Some (r, d # ds'))"

definition FindOneAndUpdate ::
  "env \<Rightarrow> docid \<Rightarrow> ('f document \<Rightarrow> 'f document) \<Rightarrow> 'f document list
     \<Rightarrow> string + ('f document \<times> 'f document list)" where
  "FindOneAndUpdate e i u coll =
     (case storeErr e of
        Some msg \<Rightarrow> Inl msg
      | None \<Rightarrow>
          (case findAndUpdate i u coll of
             None \<Rightarrow> Inl ''mongo: no documents in result''
           | Some r \<Rightarrow> Inr r))"

text \<open>
  \<^verbatim>\<open>Find\<close> with the filter \<^verbatim>\<open>customer.id\<close>: a cursor over the matching documents,
  in collection order, cut where the cursor breaks off.
\<close>

definition Find :: "env \<Rightarrow> string \<Rightarrow> 'f document list \<Rightarrow> string + 'f document list" where
  "Find e customerId coll =
     (case storeErr e of
        Some msg \<Rightarrow> Inl msg
      | None \<Rightarrow>
          (let ms = filter (\<lambda>d. CustomerID (DocCustomer d) = customerId) coll in
           Inr (case cursorBreak e of None \<Rightarrow> ms | Some n \<Rightarrow> take n ms)))"

section \<open>The handlers\<close>

subsection \<open>calculateTotalPrice\<close>

fun sumLoop :: "'f::plus \<Rightarrow> 'f Product list \<Rightarrow> 'f" where
  "sumLoop tot [] = tot"
| "sumLoop tot (item # items) = sumLoop (tot + Price item) items"

definition calculateTotalPrice :: "('f::{zero,plus}) Product list \<Rightarrow> 'f" where
  "calculateTotalPrice items = sumLoop 0 items"

subsection \<open>generatePDF\<close>

text \<open>
  The layout of the page is left out; what remains is the file written and the line
  printed. A write that fails is modelled as leaving the file as it was.
\<close>

definition generatePDF ::
  "env \<Rightarrow> 'f Product list \<Rightarrow> 'f \<Rightarrow> nat \<Rightarrow> 'f world \<Rightarrow> 'f world" where
  "generatePDF e items totalPrice totalNumberOfItems w =
     (case fileErr e of
        Some msg \<Rightarrow> w\<lparr>stdout := stdout w @ [''Error: '' @ msg]\<rparr>
      | None \<Rightarrow>
          w\<lparr>receiptFile :=
               Some \<lparr>ReceiptItems = items, ReceiptTotal = totalPrice,
                     ReceiptCount = totalNumberOfItems\<rparr>,
            stdout := stdout w @ [''Receipt generated successfully'']\<rparr>)"

subsection \<open>createTransaction\<close>

text \<open>
  Lines 140 to 143 of the handler: the four assignments to the bound struct, with the
  two readings of the clock they make.
\<close>

definition stamp :: "env \<Rightarrow> ('f::{zero,plus}) Transaction \<Rightarrow> 'f Transaction" where
  "stamp e t0 =
     (let t1 = t0\<lparr>TotalPrice := calculateTotalPrice (CartItems t0)\<rparr>;
          t2 = t1\<lparr>Status := ''awaiting payment''\<rparr>;
          t3 = t2\<lparr>CreatedAt := timeNow e 0\<rparr>
      in t3\<lparr>UpdatedAt := timeNow e 1\<rparr>)"

text \<open>
  The handler's input is what \<^verbatim>\<open>c.BindJSON(&transaction)\<close> produced: an error, or the
  struct filled from the request body.
\<close>

definition createTransaction ::
  "('f \<Rightarrow> bool) \<Rightarrow> string + ('f::{zero,plus}) Transaction \<Rightarrow> env \<Rightarrow> 'f world
     \<Rightarrow> 'f response \<times> 'f world" where
  "createTransaction isFinite bound e w =
     (case bound of
        Inl err \<Rightarrow> (JSON isFinite StatusBadRequest (ErrorBody err), w)
      | Inr t0 \<Rightarrow>
          (let transaction = stamp e t0
           in case InsertOne e (transactionCollection w) transaction of
                Inl err \<Rightarrow>
                  (JSON isFinite StatusInternalServerError (ErrorBody err),
                   w\<lparr>stdout := stdout w @ [''failed to insert to DB'' @ err]\<rparr>)
              | Inr coll \<Rightarrow>
                  (JSON isFinite StatusOK (CreatedBody transaction),
                   generatePDF e (CartItems transaction) (TotalPrice transaction)
                     (length (CartItems transaction))
                     (w\<lparr>transactionCollection := coll\<rparr>))))"

subsection \<open>getTransactions\<close>

text \<open>
  The slice starts out nil and grows by one decoded document per turn of the cursor
  loop. A nil slice and an empty one are the same list here (on the wire gin writes the
  nil slice as \<^verbatim>\<open>null\<close>).
\<close>

fun cursorLoop :: "'f Transaction list \<Rightarrow> 'f document list \<Rightarrow> 'f Transaction list" where
  "cursorLoop transactions [] = transactions"
| "cursorLoop transactions (d # ds) = cursorLoop (transactions @ [Decode d]) ds"

definition getTransactions ::
  "('f \<Rightarrow> bool) \<Rightarrow> string \<Rightarrow> env \<Rightarrow> 'f world \<Rightarrow> 'f response \<times> 'f world" where
  "getTransactions isFinite customerId e w =
     (case Find e customerId (transactionCollection w) of
        Inl err \<Rightarrow> (JSON isFinite StatusInternalServerError (ErrorBody err), w)
      | Inr cursor \<Rightarrow> (JSON isFinite StatusOK (TransactionsBody (cursorLoop [] cursor)), w))"

subsection \<open>pay\<close>

text \<open>
  The error of \<^verbatim>\<open>ObjectIDFromHex\<close> is dropped by the handler; the filter is built
  from whatever object id came back.
\<close>

definition pay ::
  "('f \<Rightarrow> bool) \<Rightarrow> string \<Rightarrow> env \<Rightarrow> 'f world \<Rightarrow> 'f response \<times> 'f world" where
  "pay isFinite transactionID e w =
     (let objectId = fst (ObjectIDFromHex transactionID);
          update = (\<lambda>d. d\<lparr>DocStatus := ''paid'', DocUpdatedAt := bsonTime (timeNow e 0)\<rparr>)
      in case FindOneAndUpdate e (OID objectId) update (transactionCollection w) of
           Inl err \<Rightarrow>
             (JSON isFinite StatusInternalServerError
                (ErrorBody ''Failed to update transaction status''), w)
         | Inr (updatedTransaction, coll) \<Rightarrow>
             (JSON isFinite StatusOK (TransactionBody (Decode updatedTransaction)),
              w\<lparr>transactionCollection := coll\<rparr>))"

subsection \<open>processPayment\<close>

text \<open>A JSON value; a number is kept as its literal.\<close>

datatype json =
    JNull
  | JBool bool
  | JNumber string
  | JString string
  | JArray "json list"
  | JObject "(string \<times> json) list"

text \<open>
  What the decoder makes of a request body. \<^verbatim>\<open>Decoder.Decode\<close> reads one JSON value from the
  start of the body and leaves alone whatever follows it: \<open>firstValue\<close> is that value
  (\<open>None\<close> when the body does not begin with a complete JSON value: it is empty, or
  has a syntax error before the first value ends), \<open>afterValue\<close> the bytes after it.
\<close>

record requestBody =
  firstValue :: "json option"
  afterValue :: string

text \<open>
  \<^verbatim>\<open>ShouldBindJSON\<close> into a \<^verbatim>\<open>PaymentForm\<close>, which is \<^verbatim>\<open>encoding/json\<close> decoding
  into a struct of five string fields that carry a \<^verbatim>\<open>json\<close> tag and no \<^verbatim>\<open>binding\<close>
  tag. A member is matched to a field by its exact name, else by the name up to the
  decoder's case folding, which is the parameter \<open>foldName\<close>. A string sets the field, a
  null leaves it, any other value is a type error; the decoder goes on and reports the
  first error at the end. Members that match no field are skipped. With no
  \<^verbatim>\<open>binding\<close> tag the validator that runs afterwards checks nothing.
\<close>

definition paymentFormFields :: "string list" where
  "paymentFormFields = [''cardNumber'', ''expirationDate'', ''cvv'', ''name'', ''address'']"

definition fieldFor :: "(string \<Rightarrow> string) \<Rightarrow> string \<Rightarrow> string option" where
  "fieldFor foldName key =
     (case find (\<lambda>n. n = key) paymentFormFields of
        Some n \<Rightarrow> Some n
      | None \<Rightarrow> find (\<lambda>n. foldName n = foldName key) paymentFormFields)"

definition setField :: "string \<Rightarrow> string \<Rightarrow> PaymentForm \<Rightarrow> PaymentForm" where
  "setField n v p =
     (if n = ''cardNumber'' then p\<lparr>CardNumber := v\<rparr>
      else if n = ''expirationDate'' then p\<lparr>ExpirationDate := v\<rparr>
      else if n = ''cvv'' then p\<lparr>CVV := v\<rparr>
      else if n = ''name'' then p\<lparr>HolderName := v\<rparr>
      else if n = ''address'' then p\<lparr>Address := v\<rparr>
      else p)"

fun decodeMembers ::
  "(string \<Rightarrow> string) \<Rightarrow> (string \<times> json) list \<Rightarrow> PaymentForm \<Rightarrow> string option
     \<Rightarrow> PaymentForm \<times> string option" where
  "decodeMembers foldName [] p err = (p, err)"
| "decodeMembers foldName ((k, v) # ms) p err =
     (case fieldFor foldName k of
        None \<Rightarrow> decodeMembers foldName ms p err
      | Some n \<Rightarrow>
          (case v of
             JString s \<Rightarrow> decodeMembers foldName ms (setField n s p) err
           | JNull \<Rightarrow> decodeMembers foldName ms p err
           | _ \<Rightarrow>
               decodeMembers foldName ms p
                 (case err of
                    None \<Rightarrow> Some (''json: cannot unmarshal into Go struct field '' @ n)
                  | Some x \<Rightarrow> Some x)))"

definition ShouldBindJSON ::
  "(string \<Rightarrow> string) \<Rightarrow> requestBody \<Rightarrow> string + PaymentForm" where
  "ShouldBindJSON foldName reqBody =
     (let paymentForm =
            \<lparr>CardNumber = [], ExpirationDate = [], CVV = [], HolderName = [], Address = []\<rparr>
      in case firstValue reqBody of
           None \<Rightarrow> Inl ''invalid character''
         | Some JNull \<Rightarrow> Inr paymentForm
         | Some (JObject ms) \<Rightarrow>
             (case decodeMembers foldName ms paymentForm None of
                (p, None) \<Rightarrow> Inr p
              | (p, Some err) \<Rightarrow> Inl err)
         | Some _ \<Rightarrow> Inl ''json: cannot unmarshal into Go value of type main.PaymentForm'')"

text \<open>Case folding of the ASCII letters, for evaluating the binder on concrete bodies.\<close>

definition asciiLower :: "char \<Rightarrow> char" where
  "asciiLower c =
     (let n = of_char c :: nat in if 65 \<le> n \<and> n \<le> 90 then char_of (n + 32) else c)"

definition asciiFold :: "string \<Rightarrow> string" where
  "asciiFold s = map asciiLower s"

definition processPayment ::
  "('f \<Rightarrow> bool) \<Rightarrow> string + PaymentForm \<Rightarrow> 'f world \<Rightarrow> 'f response \<times> 'f world" where
  "processPayment isFinite bound w =
     (case bound of
        Inl err \<Rightarrow> (JSON isFinite StatusBadRequest (ErrorBody err), w)
      | Inr paymentForm \<Rightarrow> (JSON isFinite StatusOK (SuccessBody True), w))"

subsection \<open>The router\<close>

datatype 'f request =
    PostCreateTransaction "string + 'f Transaction"
  | GetTransactions string
  | PostProcessPayment "string + PaymentForm"
  | GetPay string

fun handle ::
  "('f \<Rightarrow> bool) \<Rightarrow> ('f::{zero,plus}) request \<Rightarrow> env \<Rightarrow> 'f world
     \<Rightarrow> 'f response \<times> 'f world" where
  "handle isFinite (PostCreateTransaction bound) e w = createTransaction isFinite bound e w"
| "handle isFinite (GetTransactions customerId) e w = getTransactions isFinite customerId e w"
| "handle isFinite (PostProcessPayment bound) e w = processPayment isFinite bound w"
| "handle isFinite (GetPay transactionID) e w = pay isFinite transactionID e w"

text \<open>
  The object ids the driver generates begin with the time in seconds, so the nil id is
  never one of them. The states of the service are those that requests lead
  to from an empty collection.
\<close>

definition driverOK :: "env \<Rightarrow> bool" where
  "driverOK e = (newObjectID e \<noteq> NilObjectID)"

inductive reachable :: "('f::{zero,plus}) world \<Rightarrow> bool" where
  start: "transactionCollection w = [] \<Longrightarrow> reachable w"
| step: "reachable w \<Longrightarrow> driverOK e \<Longrightarrow> reachable (snd (handle isFinite req e w))"

section \<open>A number type that overflows\<close>

text \<open>
  For examples with overflow, a coarse stand-in for \<^verbatim>\<open>float64\<close>: whole amounts, which
  add exactly up to the largest finite \<^verbatim>\<open>float64\<close> and give the infinity beyond it.
\<close>

definition MaxFloat64 :: nat where
  "MaxFloat64 = 2 ^ 1024 - 2 ^ 971"

datatype amount = Whole nat | PosInf

instantiation amount :: "{zero,plus}"
begin

definition zero_amount :: amount where
  "zero_amount = Whole 0"

fun plus_amount :: "amount \<Rightarrow> amount \<Rightarrow> amount" where
  "plus_amount (Whole a) (Whole b) = (if MaxFloat64 < a + b then PosInf else Whole (a + b))"
| "plus_amount PosInf b = PosInf"
| "plus_amount a PosInf = PosInf"

instance ..

end

definition isWhole :: "amount \<Rightarrow> bool" where
  "isWhole x = (x \<noteq> PosInf)"

text \<open>Prices counted in cents are integers, each of them a finite number.\<close>

definition wholeCents :: "int \<Rightarrow> bool" where
  "wholeCents c = True"

section \<open>Example requests\<close>

text \<open>
  The order of the end-to-end scenario, with prices in cents, and the surroundings the
  examples below run in.
\<close>

definition emptyWorld :: "int world" where
  "emptyWorld = \<lparr>transactionCollection = [], receiptFile = None, stdout = []\<rparr>"

definition widgetOrder :: "int Transaction" where
  "widgetOrder =
     \<lparr>ID = [],
      CartItems = [\<lparr>ProductName = ''Widget'', Price = 999\<rparr>,
                   \<lparr>ProductName = ''Gadget'', Price = 500\<rparr>],
      Customer = \<lparr>CustomerID = ''c1'', CustomerName = ''Ann'', Email = ''a@x.com''\<rparr>,
      Status = [], CreatedAt = 0, UpdatedAt = 0, TotalPrice = 0\<rparr>"

definition steadyEnv :: env where
  "steadyEnv =
     \<lparr>timeNow = (\<lambda>k. 1700000000000000000 + 50 * int k), storeErr = None,
      newObjectID = [101, 83, 241, 0, 17, 34, 51, 68, 85, 0, 0, 2],
      fileErr = None, cursorBreak = None\<rparr>"

text \<open>
  The same order with prices near the top of the \<^verbatim>\<open>float64\<close> range.
\<close>

definition emptyLedger :: "amount world" where
  "emptyLedger = \<lparr>transactionCollection = [], receiptFile = None, stdout = []\<rparr>"

definition hugeOrder :: "amount Transaction" where
  "hugeOrder =
     \<lparr>ID = [],
      CartItems = [\<lparr>ProductName = ''Widget'', Price = Whole (10 ^ 308)\<rparr>,
                   \<lparr>ProductName = ''Gadget'', Price = Whole (10 ^ 308)\<rparr>],
      Customer = \<lparr>CustomerID = ''c1'', CustomerName = ''Ann'', Email = ''a@x.com''\<rparr>,
      Status = [], CreatedAt = 0, UpdatedAt = 0, TotalPrice = Whole 0\<rparr>"

definition downEnv :: env where
  "downEnv = steadyEnv\<lparr>storeErr := Some ''server selection timeout''\<rparr>"


definition oneOrderWorld :: "int world" where
  "oneOrderWorld = snd (createTransaction wholeCents (Inr widgetOrder) steadyEnv emptyWorld)"

definition laterEnv :: env where
  "laterEnv = steadyEnv\<lparr>timeNow := (\<lambda>k. 1700000060123456789 + 50 * int k)\<rparr>"

text \<open>
  The widget order with an id of the client's choosing in the request.
\<close>

definition abcOrder :: "int Transaction" where
  "abcOrder = widgetOrder\<lparr>ID := ''abc''\<rparr>"

definition abcWorld :: "int world" where
  "abcWorld = snd (createTransaction wholeCents (Inr abcOrder) steadyEnv emptyWorld)"

text \<open>
  The state after the widget order has been created and then paid.
\<close>

definition paidWorld :: "int world" where
  "paidWorld = snd (pay wholeCents ''6553f1001122334455000002'' laterEnv oneOrderWorld)"

text \<open>
  The acceptance condition in the words of the specification, to compare the binder with:
  the body is an object in which every one of the five fields is present and holds a
  string.
\<close>

definition specShapeValid :: "requestBody \<Rightarrow> bool" where
  "specShapeValid reqBody =
     (afterValue reqBody = []
      \<and> (case firstValue reqBody of
            Some (JObject ms) \<Rightarrow>
              list_all (\<lambda>n. case map_of ms n of Some (JString s) \<Rightarrow> True | _ \<Rightarrow> False)
                paymentFormFields
          | _ \<Rightarrow> False))"

text \<open>
  The body \<^verbatim>\<open>{}\<close>, and a body that has one of the fields, a member that names none, and
  text after the object.
\<close>

definition emptyObject :: requestBody where
  "emptyObject = \<lparr>firstValue = Some (JObject []), afterValue = []\<rparr>"

definition partialForm :: requestBody where
  "partialForm =
     \<lparr>firstValue = Some (JObject [(''CVV'', JString ''123''), (''memo'', JArray [])]),
      afterValue = '' xyz''\<rparr>"

section \<open>Properties\<close>

lemma sumLoop_foldl: "sumLoop tot items = foldl (+) tot (map Price items)"
  by (induction items arbitrary: tot) simp_all

lemma calculateTotalPrice_exact:
  "calculateTotalPrice items = sum_list (map Price items)"
  for items :: "('f::monoid_add) Product list"
proof -
  have "sumLoop tot items = tot + sum_list (map Price items)" for tot :: 'f
    by (induction items arbitrary: tot) (simp_all add: add.assoc)
  then show ?thesis by (simp add: calculateTotalPrice_def)
qed

subsection \<open>The store\<close>

lemma findAndUpdate_None: "findAndUpdate i u ds = None \<longleftrightarrow> i \<notin> set (map DocId ds)"
  by (induction ds) (auto split: option.splits)

lemma findAndUpdate_Some:
  "findAndUpdate i u ds = Some (r, ds') \<Longrightarrow>
     \<exists>k<length ds. DocId (ds ! k) = i \<and> r = u (ds ! k) \<and> ds' = ds[k := u (ds ! k)]
       \<and> (\<forall>j<k. DocId (ds ! j) \<noteq> i)"
proof (induction ds arbitrary: r ds')
  case Nil
  then show ?case by simp
next
  case (Cons d ds)
  show ?case
  proof (cases "DocId d = i")
    case True
    with Cons.prems have "r = u d" "ds' = u d # ds" by auto
    with True show ?thesis by (intro exI [of _ 0]) simp
  next
    case False
    with Cons.prems obtain ds0 where f: "findAndUpdate i u ds = Some (r, ds0)" and d: "ds' = d # ds0"
      by (auto split: option.splits)
    from Cons.IH [OF f] obtain k where k: "k < length ds" "DocId (ds ! k) = i" "r = u (ds ! k)"
      "ds0 = ds[k := u (ds ! k)]" "\<forall>j<k. DocId (ds ! j) \<noteq> i" by blast
    show ?thesis
    proof (intro exI [of _ "Suc k"] conjI allI impI)
      fix j assume "j < Suc k"
      with k(5) False show "DocId ((d # ds) ! j) \<noteq> i" by (cases j) auto
    qed (use k d in simp_all)
  qed
qed

lemma findAndUpdate_distinct:
  assumes "distinct (map DocId ds)" "k < length ds" "DocId (ds ! k) = i"
  shows "findAndUpdate i u ds = Some (u (ds ! k), ds[k := u (ds ! k)])"
proof -
  from assms have "i \<in> set (map DocId ds)" by (metis length_map nth_map nth_mem)
  then obtain r ds' where f: "findAndUpdate i u ds = Some (r, ds')"
    using findAndUpdate_None [of i u ds] by (cases "findAndUpdate i u ds") auto
  from findAndUpdate_Some [OF f] obtain k' where k': "k' < length ds" "DocId (ds ! k') = i"
    "r = u (ds ! k')" "ds' = ds[k' := u (ds ! k')]" by blast
  from assms k'(1,2) have "k' = k"
    by (metis distinct_conv_nth length_map nth_map)
  with f k' show ?thesis by simp
qed

subsection \<open>Responses\<close>

lemma JSON_status: "status (JSON isFinite code obj) = code"
  by (simp add: JSON_def)

lemma JSON_ErrorBody:
  "JSON isFinite code (ErrorBody msg) = \<lparr>status = code, payload = ErrorBody msg\<rparr>"
  by (simp add: JSON_def)

lemma JSON_SuccessBody:
  "JSON isFinite code (SuccessBody b) = \<lparr>status = code, payload = SuccessBody b\<rparr>"
  by (simp add: JSON_def)

lemma JSON_marshals:
  "marshals isFinite obj \<Longrightarrow> JSON isFinite code obj = \<lparr>status = code, payload = obj\<rparr>"
  by (simp add: JSON_def)

lemma JSON_refused:
  "\<not> marshals isFinite obj \<Longrightarrow> JSON isFinite code obj = \<lparr>status = code, payload = NoBody\<rparr>"
  by (simp add: JSON_def)

lemma finiteTransaction_wholeCents: "finiteTransaction wholeCents t"
  by (simp add: finiteTransaction_def wholeCents_def list_all_iff)

lemma JSON_wholeCents: "JSON wholeCents code obj = \<lparr>status = code, payload = obj\<rparr>"
  by (cases obj) (simp_all add: JSON_def finiteTransaction_wholeCents list_all_iff)

subsection \<open>Creating a transaction\<close>

lemma stamp_fields:
  "ID (stamp e t) = ID t"
  "CartItems (stamp e t) = CartItems t"
  "Customer (stamp e t) = Customer t"
  "Status (stamp e t) = ''awaiting payment''"
  "CreatedAt (stamp e t) = timeNow e 0"
  "UpdatedAt (stamp e t) = timeNow e 1"
  "TotalPrice (stamp e t) = calculateTotalPrice (CartItems t)"
  by (simp_all add: stamp_def)

lemma createTransaction_inserted:
  "InsertOne e (transactionCollection w) (stamp e t) = Inr coll \<Longrightarrow>
   createTransaction isFinite (Inr t) e w =
     (JSON isFinite StatusOK (CreatedBody (stamp e t)),
      generatePDF e (CartItems t) (calculateTotalPrice (CartItems t)) (length (CartItems t))
        (w\<lparr>transactionCollection := coll\<rparr>))"
  by (simp add: createTransaction_def stamp_fields)

lemma createTransaction_rejected:
  "InsertOne e (transactionCollection w) (stamp e t) = Inl err \<Longrightarrow>
   createTransaction isFinite (Inr t) e w =
     (JSON isFinite StatusInternalServerError (ErrorBody err),
      w\<lparr>stdout := stdout w @ [''failed to insert to DB'' @ err]\<rparr>)"
  by (simp add: createTransaction_def)

lemma createTransaction_created:
  assumes "createTransaction isFinite (Inr t) e w = (r, w')" and "payload r = CreatedBody tx"
  shows "tx = stamp e t"
proof (cases "InsertOne e (transactionCollection w) (stamp e t)")
  case (Inl err)
  from createTransaction_rejected [OF Inl] assms show ?thesis by (auto simp: JSON_ErrorBody)
next
  case (Inr coll)
  from createTransaction_inserted [OF Inr] assms show ?thesis
    by (auto simp: JSON_def split: if_splits)
qed

text \<open>
  Claim C1. Whenever create returns a transaction, for any cart and the empty one too, the
  transaction carries the cart of the request and its \<open>TotalPrice\<close> is the sum of the
  \<open>Price\<close> fields of its \<open>CartItems\<close>: the prices added one after the other, in cart
  order, starting from zero. On a number type whose addition is exact this is
  \<open>sum_list\<close> of the prices (lemma \<open>calculateTotalPrice_exact\<close>).
\<close>

theorem create_totalPrice_is_sum:
  assumes "createTransaction isFinite (Inr t) e w = (r, w')" and "payload r = CreatedBody tx"
  shows "CartItems tx = CartItems t \<and> TotalPrice tx = foldl (+) 0 (map Price (CartItems tx))"
  using createTransaction_created [OF assms]
  by (simp add: stamp_fields calculateTotalPrice_def sumLoop_foldl)

lemma widget_created:
  "createTransaction wholeCents (Inr widgetOrder) steadyEnv emptyWorld =
     (JSON wholeCents StatusOK (CreatedBody (stamp steadyEnv widgetOrder)),
      \<lparr>transactionCollection =
         [encodeDoc (OID [101, 83, 241, 0, 17, 34, 51, 68, 85, 0, 0, 2]) (stamp steadyEnv widgetOrder)],
       receiptFile = Some \<lparr>ReceiptItems = CartItems widgetOrder, ReceiptTotal = 1499, ReceiptCount = 2\<rparr>,
       stdout = [''Receipt generated successfully'']\<rparr>)"
  by (simp add: createTransaction_def InsertOne_def stamp_fields generatePDF_def Let_def
      calculateTotalPrice_def steadyEnv_def emptyWorld_def widgetOrder_def)

theorem create_totalPrice_is_sum_witness:
  "createTransaction wholeCents (Inr widgetOrder) steadyEnv emptyWorld =
     (JSON wholeCents StatusOK (CreatedBody (stamp steadyEnv widgetOrder)),
      snd (createTransaction wholeCents (Inr widgetOrder) steadyEnv emptyWorld))
   \<and> CartItems (stamp steadyEnv widgetOrder) = CartItems widgetOrder
   \<and> TotalPrice (stamp steadyEnv widgetOrder) = 1499"
proof -
  have run: "createTransaction wholeCents (Inr widgetOrder) steadyEnv emptyWorld =
     (JSON wholeCents StatusOK (CreatedBody (stamp steadyEnv widgetOrder)),
      snd (createTransaction wholeCents (Inr widgetOrder) steadyEnv emptyWorld))"
    by (simp add: widget_created)
  have pl: "payload (JSON wholeCents StatusOK (CreatedBody (stamp steadyEnv widgetOrder)))
      = CreatedBody (stamp steadyEnv widgetOrder)"
    by (simp add: JSON_wholeCents)
  from create_totalPrice_is_sum [OF run pl] run show ?thesis
    by (simp add: widgetOrder_def)
qed

text \<open>
  Claim C2, as stated, fails: the handler reads the clock twice, once for \<open>CreatedAt\<close> and
  once more for \<open>UpdatedAt\<close>. With a clock that has moved on by 50 nanoseconds between
  the two readings, the transaction returned for the widget order has different
  \<open>CreatedAt\<close> and \<open>UpdatedAt\<close>.
\<close>

theorem create_timestamps_differ:
  "payload (fst (createTransaction wholeCents (Inr widgetOrder) steadyEnv emptyWorld))
     = CreatedBody (stamp steadyEnv widgetOrder)
   \<and> CreatedAt (stamp steadyEnv widgetOrder) = 1700000000000000000
   \<and> UpdatedAt (stamp steadyEnv widgetOrder) = 1700000000000000050
   \<and> CreatedAt (stamp steadyEnv widgetOrder) \<noteq> UpdatedAt (stamp steadyEnv widgetOrder)"
proof -
  have "payload (fst (createTransaction wholeCents (Inr widgetOrder) steadyEnv emptyWorld))
     = CreatedBody (stamp steadyEnv widgetOrder)"
    by (simp add: widget_created JSON_wholeCents)
  moreover have "CreatedAt (stamp steadyEnv widgetOrder) = 1700000000000000000"
    and "UpdatedAt (stamp steadyEnv widgetOrder) = 1700000000000000050"
    by (simp_all add: stamp_fields steadyEnv_def)
  ultimately show ?thesis by simp
qed

text \<open>
  Claim C2, amended. Whenever create returns a transaction, its \<open>Status\<close> is
  \<open>''awaiting payment''\<close>, its \<open>CreatedAt\<close> is the first reading of the clock and its
  \<open>UpdatedAt\<close> the second; the two are equal exactly when the two readings are.
\<close>

theorem create_status_and_clock_readings:
  assumes "createTransaction isFinite (Inr t) e w = (r, w')" and "payload r = CreatedBody tx"
  shows "Status tx = ''awaiting payment'' \<and> CreatedAt tx = timeNow e 0
         \<and> UpdatedAt tx = timeNow e 1
         \<and> (CreatedAt tx = UpdatedAt tx \<longleftrightarrow> timeNow e 0 = timeNow e 1)"
  using createTransaction_created [OF assms] by (simp add: stamp_fields)

theorem create_status_and_clock_readings_witness:
  "createTransaction wholeCents (Inr widgetOrder) steadyEnv emptyWorld =
     (JSON wholeCents StatusOK (CreatedBody (stamp steadyEnv widgetOrder)),
      snd (createTransaction wholeCents (Inr widgetOrder) steadyEnv emptyWorld))
   \<and> Status (stamp steadyEnv widgetOrder) = ''awaiting payment''
   \<and> CreatedAt (stamp steadyEnv widgetOrder) = 1700000000000000000
   \<and> UpdatedAt (stamp steadyEnv widgetOrder) = 1700000000000000050"
proof -
  have run: "createTransaction wholeCents (Inr widgetOrder) steadyEnv emptyWorld =
     (JSON wholeCents StatusOK (CreatedBody (stamp steadyEnv widgetOrder)),
      snd (createTransaction wholeCents (Inr widgetOrder) steadyEnv emptyWorld))"
    by (simp add: widget_created)
  have pl: "payload (JSON wholeCents StatusOK (CreatedBody (stamp steadyEnv widgetOrder)))
      = CreatedBody (stamp steadyEnv widgetOrder)"
    by (simp add: JSON_wholeCents)
  from create_status_and_clock_readings [OF run pl] run show ?thesis
    by (simp add: steadyEnv_def)
qed

text \<open>
  Claim C3. When the insert fails, create answers with status 500 and the error of the
  store, and nothing else happens: the receipt file is as it was, the collection is as it
  was, and the only line printed is the one that reports the failed insert (none of the
  two lines the receipt renderer prints).
\<close>

theorem create_insert_failure:
  assumes "InsertOne e (transactionCollection w) (stamp e t) = Inl err"
  shows "createTransaction isFinite (Inr t) e w =
           (JSON isFinite StatusInternalServerError (ErrorBody err),
            w\<lparr>stdout := stdout w @ [''failed to insert to DB'' @ err]\<rparr>)
         \<and> status (fst (createTransaction isFinite (Inr t) e w)) = 500
         \<and> payload (fst (createTransaction isFinite (Inr t) e w)) = ErrorBody err
         \<and> receiptFile (snd (createTransaction isFinite (Inr t) e w)) = receiptFile w
         \<and> transactionCollection (snd (createTransaction isFinite (Inr t) e w)) = transactionCollection w"
  by (simp add: createTransaction_rejected [OF assms] JSON_ErrorBody
      StatusInternalServerError_def)

theorem create_insert_failure_witness:
  "InsertOne downEnv (transactionCollection emptyWorld) (stamp downEnv widgetOrder)
     = Inl ''server selection timeout''
   \<and> createTransaction wholeCents (Inr widgetOrder) downEnv emptyWorld =
       (\<lparr>status = 500, payload = ErrorBody ''server selection timeout''\<rparr>,
        \<lparr>transactionCollection = [], receiptFile = None,
         stdout = [''failed to insert to DBserver selection timeout'']\<rparr>)"
proof -
  have ins: "InsertOne downEnv (transactionCollection emptyWorld) (stamp downEnv widgetOrder)
     = Inl ''server selection timeout''"
    by (simp add: InsertOne_def downEnv_def)
  from create_insert_failure [OF ins, of wholeCents] ins show ?thesis
    by (simp add: emptyWorld_def JSON_ErrorBody StatusInternalServerError_def)
qed

lemma InsertOne_fileErr: "InsertOne (e\<lparr>fileErr := x\<rparr>) coll t = InsertOne e coll t"
  by (simp add: InsertOne_def Let_def split: option.splits)

lemma hugeOrder_total: "TotalPrice (stamp steadyEnv hugeOrder) = PosInf"
  by (simp add: stamp_fields hugeOrder_def calculateTotalPrice_def zero_amount_def
      MaxFloat64_def)

lemma hugeOrder_inserted:
  "InsertOne steadyEnv (transactionCollection emptyLedger) (stamp steadyEnv hugeOrder)
     = Inr [encodeDoc (OID (newObjectID steadyEnv)) (stamp steadyEnv hugeOrder)]"
  by (simp add: InsertOne_def steadyEnv_def emptyLedger_def stamp_fields hugeOrder_def)

text \<open>
  Claim C4, as stated, fails: two prices of \<open>10 ^ 308\<close> add up to the infinity. The insert
  succeeds, and the response goes out with status 200 and no body, so the caller does not
  get the transaction.
\<close>

theorem create_overflow_sends_no_body:
  "InsertOne steadyEnv (transactionCollection emptyLedger) (stamp steadyEnv hugeOrder)
     = Inr [encodeDoc (OID (newObjectID steadyEnv)) (stamp steadyEnv hugeOrder)]
   \<and> TotalPrice (stamp steadyEnv hugeOrder) = PosInf
   \<and> fst (createTransaction isWhole (Inr hugeOrder) steadyEnv emptyLedger)
       = \<lparr>status = 200, payload = NoBody\<rparr>"
proof -
  have "\<not> marshals isWhole (CreatedBody (stamp steadyEnv hugeOrder))"
    by (simp add: finiteTransaction_def hugeOrder_total isWhole_def)
  then have "fst (createTransaction isWhole (Inr hugeOrder) steadyEnv emptyLedger)
       = \<lparr>status = 200, payload = NoBody\<rparr>"
    by (simp add: createTransaction_inserted [OF hugeOrder_inserted] JSON_refused StatusOK_def)
  with hugeOrder_inserted hugeOrder_total show ?thesis by simp
qed

text \<open>
  Claim C4, amended. When the insert succeeds and the prices and the total of the
  transaction are finite numbers, create answers with status 200 and the whole
  transaction, whatever the outcome of writing the receipt: the answer does not depend on
  \<open>fileErr\<close>. When writing the receipt fails, the error is printed and the stored
  document stays.
\<close>

theorem create_survives_render_failure:
  assumes "InsertOne e (transactionCollection w) (stamp e t) = Inr coll"
    and "finiteTransaction isFinite (stamp e t)"
  shows "fst (createTransaction isFinite (Inr t) (e\<lparr>fileErr := outcome\<rparr>) w)
           = \<lparr>status = 200, payload = CreatedBody (stamp e t)\<rparr>
         \<and> transactionCollection (snd (createTransaction isFinite (Inr t) (e\<lparr>fileErr := outcome\<rparr>) w))
             = coll
         \<and> (\<forall>msg. outcome = Some msg \<longrightarrow>
               stdout (snd (createTransaction isFinite (Inr t) (e\<lparr>fileErr := outcome\<rparr>) w))
                 = stdout w @ [''Error: '' @ msg])"
proof -
  let ?e = "e\<lparr>fileErr := outcome\<rparr>"
  have st: "stamp ?e t = stamp e t"
    by (simp add: stamp_def)
  have "InsertOne ?e (transactionCollection w) (stamp e t) = Inr coll"
    using assms(1) by (simp add: InsertOne_fileErr)
  then have ins: "InsertOne ?e (transactionCollection w) (stamp ?e t) = Inr coll"
    by (simp only: st)
  have run: "createTransaction isFinite (Inr t) ?e w =
     (JSON isFinite StatusOK (CreatedBody (stamp e t)),
      generatePDF ?e (CartItems t) (calculateTotalPrice (CartItems t)) (length (CartItems t))
        (w\<lparr>transactionCollection := coll\<rparr>))"
    using createTransaction_inserted [OF ins] by (simp only: st)
  have body: "JSON isFinite StatusOK (CreatedBody (stamp e t))
      = \<lparr>status = 200, payload = CreatedBody (stamp e t)\<rparr>"
    using assms(2) by (simp add: JSON_marshals StatusOK_def)
  show ?thesis
    unfolding run body by (simp add: generatePDF_def split: option.splits)
qed

theorem create_survives_render_failure_witness:
  "InsertOne steadyEnv (transactionCollection emptyWorld) (stamp steadyEnv widgetOrder)
     = Inr [encodeDoc (OID (newObjectID steadyEnv)) (stamp steadyEnv widgetOrder)]
   \<and> finiteTransaction wholeCents (stamp steadyEnv widgetOrder)
   \<and> fst (createTransaction wholeCents (Inr widgetOrder)
        (steadyEnv\<lparr>fileErr := Some ''open receipt.pdf: permission denied''\<rparr>) emptyWorld)
       = \<lparr>status = 200, payload = CreatedBody (stamp steadyEnv widgetOrder)\<rparr>
   \<and> stdout (snd (createTransaction wholeCents (Inr widgetOrder)
        (steadyEnv\<lparr>fileErr := Some ''open receipt.pdf: permission denied''\<rparr>) emptyWorld))
       = [''Error: open receipt.pdf: permission denied'']"
proof -
  have ins: "InsertOne steadyEnv (transactionCollection emptyWorld) (stamp steadyEnv widgetOrder)
     = Inr [encodeDoc (OID (newObjectID steadyEnv)) (stamp steadyEnv widgetOrder)]"
    by (simp add: InsertOne_def steadyEnv_def emptyWorld_def stamp_fields widgetOrder_def)
  have fin: "finiteTransaction wholeCents (stamp steadyEnv widgetOrder)"
    by (rule finiteTransaction_wholeCents)
  have out: "stdout emptyWorld = []"
    by (simp add: emptyWorld_def)
  from create_survives_render_failure
    [OF ins fin, of "Some ''open receipt.pdf: permission denied''"] ins fin out
  show ?thesis
    by simp
qed



subsection \<open>Paying\<close>

lemma pay_not_found:
  assumes "OID (fst (ObjectIDFromHex transactionID)) \<notin> set (map DocId (transactionCollection w))"
  shows "pay isFinite transactionID e w =
     (JSON isFinite StatusInternalServerError (ErrorBody ''Failed to update transaction status''), w)"
proof -
  have "findAndUpdate (OID (fst (ObjectIDFromHex transactionID))) u (transactionCollection w) = None"
    for u :: "'a document \<Rightarrow> 'a document"
    using assms by (simp add: findAndUpdate_None)
  then show ?thesis
    by (simp add: pay_def FindOneAndUpdate_def Let_def split: option.splits)
qed

lemma pay_store_down:
  assumes "storeErr e = Some msg"
  shows "pay isFinite transactionID e w =
     (JSON isFinite StatusInternalServerError (ErrorBody ''Failed to update transaction status''), w)"
  using assms by (simp add: pay_def FindOneAndUpdate_def Let_def)

lemma pay_cases:
  "pay isFinite transactionID e w =
     (JSON isFinite StatusInternalServerError (ErrorBody ''Failed to update transaction status''), w)
   \<or> (\<exists>k<length (transactionCollection w).
         DocId (transactionCollection w ! k) = OID (fst (ObjectIDFromHex transactionID))
         \<and> pay isFinite transactionID e w =
             (JSON isFinite StatusOK (TransactionBody (Decode
                ((transactionCollection w ! k)
                   \<lparr>DocStatus := ''paid'', DocUpdatedAt := bsonTime (timeNow e 0)\<rparr>))),
              w\<lparr>transactionCollection := (transactionCollection w)
                   [k := (transactionCollection w ! k)
                      \<lparr>DocStatus := ''paid'', DocUpdatedAt := bsonTime (timeNow e 0)\<rparr>]\<rparr>))"
proof (cases "storeErr e")
  case (Some msg)
  then show ?thesis by (simp add: pay_store_down)
next
  case None
  let ?i = "OID (fst (ObjectIDFromHex transactionID))"
  let ?u = "\<lambda>d::'a document. d\<lparr>DocStatus := ''paid'', DocUpdatedAt := bsonTime (timeNow e 0)\<rparr>"
  show ?thesis
  proof (cases "findAndUpdate ?i ?u (transactionCollection w)")
    case fNone: None
    then have "?i \<notin> set (map DocId (transactionCollection w))"
      by (simp add: findAndUpdate_None)
    then show ?thesis by (simp only: pay_not_found simp_thms)
  next
    case (Some res)
    obtain r ds' where res: "res = (r, ds')" by (cases res)
    from findAndUpdate_Some [OF Some [unfolded res]] obtain k where
      k: "k < length (transactionCollection w)" "DocId (transactionCollection w ! k) = ?i"
         "r = ?u (transactionCollection w ! k)"
         "ds' = (transactionCollection w)[k := ?u (transactionCollection w ! k)]"
      by blast
    have "pay isFinite transactionID e w =
        (JSON isFinite StatusOK (TransactionBody (Decode r)), w\<lparr>transactionCollection := ds'\<rparr>)"
      using None Some res by (simp add: pay_def FindOneAndUpdate_def Let_def)
    with k show ?thesis by blast
  qed
qed

lemma pay_found:
  assumes "distinct (map DocId (transactionCollection w))"
    and "k < length (transactionCollection w)"
    and "DocId (transactionCollection w ! k) = OID (fst (ObjectIDFromHex transactionID))"
    and "storeErr e = None"
  shows "pay isFinite transactionID e w =
     (JSON isFinite StatusOK (TransactionBody (Decode
        ((transactionCollection w ! k)
           \<lparr>DocStatus := ''paid'', DocUpdatedAt := bsonTime (timeNow e 0)\<rparr>))),
      w\<lparr>transactionCollection := (transactionCollection w)
           [k := (transactionCollection w ! k)
              \<lparr>DocStatus := ''paid'', DocUpdatedAt := bsonTime (timeNow e 0)\<rparr>]\<rparr>)"
  using assms(4) findAndUpdate_distinct [OF assms(1,2,3)]
  by (simp add: pay_def FindOneAndUpdate_def Let_def)

subsection \<open>States of the service\<close>

lemma createTransaction_cases:
  "transactionCollection (snd (createTransaction isFinite bound e w)) = transactionCollection w
   \<or> (\<exists>i t. transactionCollection (snd (createTransaction isFinite bound e w))
               = transactionCollection w @ [encodeDoc i t]
        \<and> i \<notin> set (map DocId (transactionCollection w))
        \<and> (i = OID (newObjectID e) \<or> (\<exists>s. i = SID s)))"
proof (cases bound)
  case (Inl err)
  then show ?thesis by (simp add: createTransaction_def)
next
  case (Inr t)
  show ?thesis
  proof (cases "InsertOne e (transactionCollection w) (stamp e t)")
    case (Inl err)
    from createTransaction_rejected [OF this] Inr show ?thesis by simp
  next
    case ins: (Inr coll)
    then obtain i where i: "coll = transactionCollection w @ [encodeDoc i (stamp e t)]"
      "i \<notin> set (map DocId (transactionCollection w))"
      "i = OID (newObjectID e) \<or> (\<exists>s. i = SID s)"
      by (auto simp: InsertOne_def Let_def split: option.splits if_splits)
    have "transactionCollection (snd (createTransaction isFinite bound e w)) = coll"
      using createTransaction_inserted [OF ins] Inr
      by (simp add: generatePDF_def split: option.splits)
    with i show ?thesis by blast
  qed
qed

lemma getTransactions_world: "snd (getTransactions isFinite customerId e w) = w"
  by (simp add: getTransactions_def split: sum.splits)

lemma processPayment_world: "snd (processPayment isFinite bound w) = w"
  by (simp add: processPayment_def split: sum.splits)

lemma DocId_encodeDoc: "DocId (encodeDoc i t) = i"
  by (simp add: encodeDoc_def)

lemma handle_ids:
  "map DocId (transactionCollection (snd (handle isFinite req e w))) = map DocId (transactionCollection w)
   \<or> (\<exists>i. map DocId (transactionCollection (snd (handle isFinite req e w)))
             = map DocId (transactionCollection w) @ [i]
        \<and> i \<notin> set (map DocId (transactionCollection w))
        \<and> (i = OID (newObjectID e) \<or> (\<exists>s. i = SID s)))"
proof (cases req)
  case (PostCreateTransaction bound)
  from createTransaction_cases [of isFinite bound e w] show ?thesis
    unfolding PostCreateTransaction handle.simps
    by (elim disjE exE conjE) (simp_all add: DocId_encodeDoc)
next
  case (GetTransactions customerId)
  then show ?thesis by (simp add: getTransactions_world)
next
  case (PostProcessPayment bound)
  then show ?thesis by (simp add: processPayment_world)
next
  case (GetPay transactionID)
  from pay_cases [of isFinite transactionID e w] show ?thesis
    unfolding GetPay handle.simps
  proof (elim disjE exE conjE)
    fix k
    assume k: "k < length (transactionCollection w)"
      and p: "pay isFinite transactionID e w =
             (JSON isFinite StatusOK (TransactionBody (Decode
                ((transactionCollection w ! k)
                   \<lparr>DocStatus := ''paid'', DocUpdatedAt := bsonTime (timeNow e 0)\<rparr>))),
              w\<lparr>transactionCollection := (transactionCollection w)
                   [k := (transactionCollection w ! k)
                      \<lparr>DocStatus := ''paid'', DocUpdatedAt := bsonTime (timeNow e 0)\<rparr>]\<rparr>)"
    have "map DocId ((transactionCollection w)
                   [k := (transactionCollection w ! k)
                      \<lparr>DocStatus := ''paid'', DocUpdatedAt := bsonTime (timeNow e 0)\<rparr>])
          = (map DocId (transactionCollection w))[k := DocId (transactionCollection w ! k)]"
      by (simp add: map_update)
    also have "\<dots> = map DocId (transactionCollection w)"
      using k by (metis list_update_id nth_map)
    finally show "map DocId (transactionCollection (snd (pay isFinite transactionID e w)))
        = map DocId (transactionCollection w)
      \<or> (\<exists>i. map DocId (transactionCollection (snd (pay isFinite transactionID e w)))
             = map DocId (transactionCollection w) @ [i]
        \<and> i \<notin> set (map DocId (transactionCollection w))
        \<and> (i = OID (newObjectID e) \<or> (\<exists>s. i = SID s)))"
      by (simp add: p)
  qed simp
qed

lemma reachable_ids:
  "reachable w \<Longrightarrow>
     distinct (map DocId (transactionCollection w))
     \<and> OID NilObjectID \<notin> set (map DocId (transactionCollection w))"
proof (induction rule: reachable.induct)
  case (start w)
  then show ?case by simp
next
  case (step w e isFinite req)
  from handle_ids [of isFinite req e w] step.IH step.hyps(2) show ?case
    by (elim disjE exE conjE) (auto simp: driverOK_def)
qed

subsection \<open>Paying a stored transaction\<close>

lemma oneOrderWorld_collection:
  "transactionCollection oneOrderWorld =
     [encodeDoc (OID [101, 83, 241, 0, 17, 34, 51, 68, 85, 0, 0, 2])
        (stamp steadyEnv widgetOrder)]"
  by (simp add: oneOrderWorld_def widget_created)

lemma oneOrderWorld_reachable: "reachable oneOrderWorld"
proof -
  have "reachable emptyWorld"
    by (rule reachable.start) (simp add: emptyWorld_def)
  moreover have "driverOK steadyEnv"
    by code_simp
  ultimately have "reachable (snd (handle wholeCents (PostCreateTransaction (Inr widgetOrder)) steadyEnv emptyWorld))"
    by (rule reachable.step)
  then show ?thesis by (simp add: oneOrderWorld_def)
qed

lemma widget_id: "ObjectIDFromHex ''6553f1001122334455000002''
    = ([101, 83, 241, 0, 17, 34, 51, 68, 85, 0, 0, 2], True)"
  by (simp add: ObjectIDFromHex_def)

lemma widget_hex: "Hex [101, 83, 241, 0, 17, 34, 51, 68, 85, 0, 0, 2]
    = ''6553f1001122334455000002''"
  by code_simp

lemma abcWorld_collection:
  "transactionCollection abcWorld = [encodeDoc (SID ''abc'') (stamp steadyEnv abcOrder)]"
  by (simp add: abcWorld_def createTransaction_def InsertOne_def stamp_fields generatePDF_def
      Let_def steadyEnv_def emptyWorld_def abcOrder_def widgetOrder_def)

lemma abcWorld_reachable: "reachable abcWorld"
proof -
  have "reachable emptyWorld"
    by (rule reachable.start) (simp add: emptyWorld_def)
  moreover have "driverOK steadyEnv"
    by code_simp
  ultimately have "reachable (snd (handle wholeCents (PostCreateTransaction (Inr abcOrder)) steadyEnv emptyWorld))"
    by (rule reachable.step)
  then show ?thesis by (simp add: abcWorld_def)
qed

lemma pay_skips_string_ids:
  assumes "k < length (transactionCollection w)"
    and "DocId (transactionCollection w ! k) = SID s"
  shows "k < length (transactionCollection (snd (pay isFinite transactionID e w)))
         \<and> transactionCollection (snd (pay isFinite transactionID e w)) ! k
             = transactionCollection w ! k"
  using pay_cases [of isFinite transactionID e w] assms
  by (elim disjE exE conjE) (auto simp: nth_list_update)

text \<open>
  Claim C5, as stated, fails: a transaction created with the id \<open>''abc''\<close> in its request
  is stored under that string, and pay, which looks up object ids only, answers 500 for it
  and leaves it awaiting payment. (No pay request changes a document stored under a
  string id: lemma \<open>pay_skips_string_ids\<close>.)
\<close>

theorem pay_cannot_reach_string_id:
  "reachable abcWorld
   \<and> transactionCollection abcWorld = [encodeDoc (SID ''abc'') (stamp steadyEnv abcOrder)]
   \<and> ID (Decode (transactionCollection abcWorld ! 0)) = ''abc''
   \<and> Status (Decode (transactionCollection abcWorld ! 0)) = ''awaiting payment''
   \<and> storeErr laterEnv = None
   \<and> pay wholeCents ''abc'' laterEnv abcWorld =
       (\<lparr>status = 500, payload = ErrorBody ''Failed to update transaction status''\<rparr>,
        abcWorld)"
proof -
  have "OID (fst (ObjectIDFromHex ''abc'')) \<notin> set (map DocId (transactionCollection abcWorld))"
    by (simp add: abcWorld_collection DocId_encodeDoc)
  from pay_not_found [OF this, of wholeCents laterEnv]
  have "pay wholeCents ''abc'' laterEnv abcWorld =
       (\<lparr>status = 500, payload = ErrorBody ''Failed to update transaction status''\<rparr>,
        abcWorld)"
    by (simp add: JSON_ErrorBody StatusInternalServerError_def)
  moreover have "ID (Decode (transactionCollection abcWorld ! 0)) = ''abc''"
    and "Status (Decode (transactionCollection abcWorld ! 0)) = ''awaiting payment''"
    by (simp_all add: abcWorld_collection Decode_def encodeDoc_def stamp_fields abcOrder_def)
  moreover have "storeErr laterEnv = None"
    by (simp add: laterEnv_def steadyEnv_def)
  ultimately show ?thesis
    using abcWorld_reachable abcWorld_collection by simp
qed

text \<open>
  Claim C5, amended. In every state of the service, for a transaction stored under an
  object id, an id string that denotes that object id, and a store that answers, pay sets
  the status of that document to \<open>''paid''\<close>, sets its \<open>UpdatedAt\<close> to the clock reading
  (as the store keeps it), changes no other document, and answers with status 200. When
  the prices and the total of the record are finite numbers the answer carries the
  updated record, whose id, cart, customer, \<open>CreatedAt\<close> and \<open>TotalPrice\<close> are the stored
  ones. The id that the service shows for such a transaction is such an id string
  (lemma \<open>listed_id_resolves\<close>).
\<close>

theorem pay_marks_paid:
  assumes "reachable w"
    and "k < length (transactionCollection w)"
    and "DocId (transactionCollection w ! k) = OID (fst (ObjectIDFromHex transactionID))"
    and "storeErr e = None"
  shows "let d = transactionCollection w ! k;
             d' = d\<lparr>DocStatus := ''paid'', DocUpdatedAt := bsonTime (timeNow e 0)\<rparr>
         in pay isFinite transactionID e w =
              (JSON isFinite StatusOK (TransactionBody (Decode d')),
               w\<lparr>transactionCollection := (transactionCollection w)[k := d']\<rparr>)
            \<and> status (fst (pay isFinite transactionID e w)) = 200
            \<and> (finiteTransaction isFinite (Decode d) \<longrightarrow>
                 payload (fst (pay isFinite transactionID e w)) = TransactionBody (Decode d'))
            \<and> Status (Decode d') = ''paid''
            \<and> UpdatedAt (Decode d') = bsonTime (timeNow e 0)
            \<and> ID (Decode d') = ID (Decode d)
            \<and> CartItems (Decode d') = CartItems (Decode d)
            \<and> Customer (Decode d') = Customer (Decode d)
            \<and> CreatedAt (Decode d') = CreatedAt (Decode d)
            \<and> TotalPrice (Decode d') = TotalPrice (Decode d)"
proof -
  let ?d = "transactionCollection w ! k"
  let ?d' = "?d\<lparr>DocStatus := ''paid'', DocUpdatedAt := bsonTime (timeNow e 0)\<rparr>"
  from reachable_ids [OF assms(1)] have "distinct (map DocId (transactionCollection w))"
    by simp
  from pay_found [OF this assms(2,3,4)]
  have run: "pay isFinite transactionID e w =
      (JSON isFinite StatusOK (TransactionBody (Decode ?d')),
       w\<lparr>transactionCollection := (transactionCollection w)[k := ?d']\<rparr>)" .
  have fin: "finiteTransaction isFinite (Decode ?d') = finiteTransaction isFinite (Decode ?d)"
    by (simp add: finiteTransaction_def Decode_def)
  have body: "finiteTransaction isFinite (Decode ?d) \<Longrightarrow>
      payload (JSON isFinite StatusOK (TransactionBody (Decode ?d'))) = TransactionBody (Decode ?d')"
    by (simp add: JSON_def fin)
  show ?thesis
    unfolding Let_def
  proof (intro conjI impI)
    show "pay isFinite transactionID e w =
      (JSON isFinite StatusOK (TransactionBody (Decode ?d')),
       w\<lparr>transactionCollection := (transactionCollection w)[k := ?d']\<rparr>)"
      by (rule run)
    show "status (fst (pay isFinite transactionID e w)) = 200"
      by (simp add: run JSON_status StatusOK_def)
    assume "finiteTransaction isFinite (Decode ?d)"
    from body [OF this]
    show "payload (fst (pay isFinite transactionID e w)) = TransactionBody (Decode ?d')"
      by (simp add: run)
  qed (simp_all add: Decode_def)
qed

theorem pay_marks_paid_witness:
  "reachable oneOrderWorld
   \<and> (0::nat) < length (transactionCollection oneOrderWorld)
   \<and> DocId (transactionCollection oneOrderWorld ! 0)
       = OID (fst (ObjectIDFromHex ''6553f1001122334455000002''))
   \<and> storeErr laterEnv = None
   \<and> DocStatus (transactionCollection oneOrderWorld ! 0) = ''awaiting payment''
   \<and> fst (pay wholeCents ''6553f1001122334455000002'' laterEnv oneOrderWorld) =
       \<lparr>status = 200, payload = TransactionBody
         \<lparr>ID = ''6553f1001122334455000002'',
          CartItems = CartItems widgetOrder, Customer = Customer widgetOrder,
          Status = ''paid'', CreatedAt = 1700000000000000000,
          UpdatedAt = 1700000060123000000, TotalPrice = 1499\<rparr>\<rparr>"
proof -
  have h2: "(0::nat) < length (transactionCollection oneOrderWorld)"
    by (simp add: oneOrderWorld_collection)
  have h3: "DocId (transactionCollection oneOrderWorld ! 0)
       = OID (fst (ObjectIDFromHex ''6553f1001122334455000002''))"
    by (simp add: oneOrderWorld_collection widget_id DocId_encodeDoc)
  have h4: "storeErr laterEnv = None"
    by (simp add: laterEnv_def steadyEnv_def)
  have d: "transactionCollection oneOrderWorld ! 0 =
      \<lparr>DocId = OID [101, 83, 241, 0, 17, 34, 51, 68, 85, 0, 0, 2],
       DocCartItems = CartItems widgetOrder, DocCustomer = Customer widgetOrder,
       DocStatus = ''awaiting payment'', DocCreatedAt = 1700000000000000000,
       DocUpdatedAt = 1700000000000000000, DocTotalPrice = 1499\<rparr>"
    by (simp add: oneOrderWorld_collection encodeDoc_def stamp_fields bsonTime_def
        steadyEnv_def calculateTotalPrice_def widgetOrder_def)
  have t: "bsonTime (timeNow laterEnv 0) = 1700000060123000000"
    by (simp add: laterEnv_def bsonTime_def)
  from pay_marks_paid [OF oneOrderWorld_reachable h2 h3 h4, of wholeCents]
  have "fst (pay wholeCents ''6553f1001122334455000002'' laterEnv oneOrderWorld) =
       JSON wholeCents StatusOK (TransactionBody (Decode
         ((transactionCollection oneOrderWorld ! 0)
            \<lparr>DocStatus := ''paid'', DocUpdatedAt := bsonTime (timeNow laterEnv 0)\<rparr>)))"
    by (simp add: Let_def)
  then have "fst (pay wholeCents ''6553f1001122334455000002'' laterEnv oneOrderWorld) =
       \<lparr>status = 200, payload = TransactionBody
         \<lparr>ID = ''6553f1001122334455000002'',
          CartItems = CartItems widgetOrder, Customer = Customer widgetOrder,
          Status = ''paid'', CreatedAt = 1700000000000000000,
          UpdatedAt = 1700000060123000000, TotalPrice = 1499\<rparr>\<rparr>"
    by (simp add: d t Decode_def widget_hex JSON_wholeCents StatusOK_def del: Hex.simps)
  with oneOrderWorld_reachable h2 h3 h4 d show ?thesis by simp
qed

lemma ObjectIDFromHex_invalid:
  "\<not> snd (ObjectIDFromHex s) \<Longrightarrow> fst (ObjectIDFromHex s) = NilObjectID"
  by (simp add: ObjectIDFromHex_def split: if_splits option.splits)

text \<open>
  Claim C6. In every state of the service, for a transaction id that is not 24
  hexadecimal digits or that no stored document has, pay answers with status 500 and an
  error message, never with a transaction, and changes nothing.
\<close>

theorem pay_unknown_or_malformed_id_fails:
  assumes "reachable w"
    and "\<not> snd (ObjectIDFromHex transactionID)
         \<or> OID (fst (ObjectIDFromHex transactionID))
             \<notin> set (map DocId (transactionCollection w))"
  shows "pay isFinite transactionID e w =
           (JSON isFinite StatusInternalServerError
              (ErrorBody ''Failed to update transaction status''), w)
         \<and> status (fst (pay isFinite transactionID e w)) = 500
         \<and> payload (fst (pay isFinite transactionID e w))
             = ErrorBody ''Failed to update transaction status''"
proof -
  from reachable_ids [OF assms(1)]
  have "OID NilObjectID \<notin> set (map DocId (transactionCollection w))" by simp
  with assms(2) have "OID (fst (ObjectIDFromHex transactionID))
      \<notin> set (map DocId (transactionCollection w))"
    using ObjectIDFromHex_invalid [of transactionID] by metis
  from pay_not_found [OF this] show ?thesis
    by (simp add: JSON_ErrorBody StatusInternalServerError_def)
qed

theorem pay_unknown_or_malformed_id_fails_witness:
  "reachable oneOrderWorld
   \<and> \<not> snd (ObjectIDFromHex ''not-an-id'')
   \<and> pay wholeCents ''not-an-id'' steadyEnv oneOrderWorld =
       (\<lparr>status = 500, payload = ErrorBody ''Failed to update transaction status''\<rparr>,
        oneOrderWorld)"
proof -
  have bad: "\<not> snd (ObjectIDFromHex ''not-an-id'')"
    by (simp add: ObjectIDFromHex_def)
  then have "\<not> snd (ObjectIDFromHex ''not-an-id'')
         \<or> OID (fst (ObjectIDFromHex ''not-an-id''))
             \<notin> set (map DocId (transactionCollection oneOrderWorld))"
    by simp
  from pay_unknown_or_malformed_id_fails [OF oneOrderWorld_reachable this, of wholeCents steadyEnv]
    oneOrderWorld_reachable bad
  show ?thesis by (simp add: JSON_ErrorBody StatusInternalServerError_def)
qed

subsection \<open>The status only moves forward\<close>

lemma handle_paid_stays:
  assumes "k < length (transactionCollection w)"
    and "DocStatus (transactionCollection w ! k) = ''paid''"
  shows "k < length (transactionCollection (snd (handle isFinite req e w)))
         \<and> DocId (transactionCollection (snd (handle isFinite req e w)) ! k)
             = DocId (transactionCollection w ! k)
         \<and> DocStatus (transactionCollection (snd (handle isFinite req e w)) ! k) = ''paid''"
proof (cases req)
  case (PostCreateTransaction bound)
  from createTransaction_cases [of isFinite bound e w] assms show ?thesis
    unfolding PostCreateTransaction handle.simps
    by (elim disjE exE conjE) (simp_all add: nth_append)
next
  case (GetTransactions customerId)
  with assms show ?thesis by (simp add: getTransactions_world)
next
  case (PostProcessPayment bound)
  with assms show ?thesis by (simp add: processPayment_world)
next
  case (GetPay transactionID)
  from pay_cases [of isFinite transactionID e w] assms show ?thesis
    unfolding GetPay handle.simps
    by (elim disjE exE conjE) (simp_all add: nth_list_update)
qed

text \<open>
  Claim C7. No request changes the status of a stored transaction that is
  \<open>''paid''\<close>: after any request the document is still there, under the same id, and
  still paid. Paying a transaction that is already paid is no error: pay answers with
  status 200 and the record, still paid, with \<open>UpdatedAt\<close> set anew.
\<close>

theorem status_never_leaves_paid:
  "(\<forall>k<length (transactionCollection w).
      DocStatus (transactionCollection w ! k) = ''paid'' \<longrightarrow>
        k < length (transactionCollection (snd (handle isFinite req e w)))
        \<and> DocId (transactionCollection (snd (handle isFinite req e w)) ! k)
            = DocId (transactionCollection w ! k)
        \<and> DocStatus (transactionCollection (snd (handle isFinite req e w)) ! k) = ''paid'')
   \<and> (reachable w \<and> storeErr e = None \<and> j < length (transactionCollection w)
        \<and> DocId (transactionCollection w ! j) = OID (fst (ObjectIDFromHex transactionID))
        \<and> DocStatus (transactionCollection w ! j) = ''paid'' \<longrightarrow>
          pay isFinite transactionID e w =
            (JSON isFinite StatusOK (TransactionBody (Decode
               ((transactionCollection w ! j)\<lparr>DocUpdatedAt := bsonTime (timeNow e 0)\<rparr>))),
             w\<lparr>transactionCollection := (transactionCollection w)
                  [j := (transactionCollection w ! j)
                          \<lparr>DocUpdatedAt := bsonTime (timeNow e 0)\<rparr>]\<rparr>)
          \<and> status (fst (pay isFinite transactionID e w)) = 200
          \<and> Status (Decode
               ((transactionCollection w ! j)\<lparr>DocUpdatedAt := bsonTime (timeNow e 0)\<rparr>))
              = ''paid'')"
proof (intro conjI allI impI)
  fix k
  assume "k < length (transactionCollection w)"
    and "DocStatus (transactionCollection w ! k) = ''paid''"
  from handle_paid_stays [OF this, of isFinite req e]
  show "k < length (transactionCollection (snd (handle isFinite req e w)))"
    and "DocId (transactionCollection (snd (handle isFinite req e w)) ! k)
            = DocId (transactionCollection w ! k)"
    and "DocStatus (transactionCollection (snd (handle isFinite req e w)) ! k) = ''paid''"
    by simp_all
next
  assume a: "reachable w \<and> storeErr e = None \<and> j < length (transactionCollection w)
        \<and> DocId (transactionCollection w ! j) = OID (fst (ObjectIDFromHex transactionID))
        \<and> DocStatus (transactionCollection w ! j) = ''paid''"
  let ?d = "transactionCollection w ! j"
  from a reachable_ids [of w] have dist: "distinct (map DocId (transactionCollection w))"
    by simp
  from a have same: "?d\<lparr>DocStatus := ''paid'', DocUpdatedAt := bsonTime (timeNow e 0)\<rparr>
      = ?d\<lparr>DocUpdatedAt := bsonTime (timeNow e 0)\<rparr>"
    by simp
  from a pay_found [OF dist, of j transactionID e isFinite]
  show run: "pay isFinite transactionID e w =
            (JSON isFinite StatusOK (TransactionBody (Decode
               (?d\<lparr>DocUpdatedAt := bsonTime (timeNow e 0)\<rparr>))),
             w\<lparr>transactionCollection := (transactionCollection w)
                  [j := ?d\<lparr>DocUpdatedAt := bsonTime (timeNow e 0)\<rparr>]\<rparr>)"
    by (simp only: same)
  show "status (fst (pay isFinite transactionID e w)) = 200"
    by (simp add: run JSON_status StatusOK_def)
  from a show "Status (Decode (?d\<lparr>DocUpdatedAt := bsonTime (timeNow e 0)\<rparr>)) = ''paid''"
    by (simp add: Decode_def)
qed

lemma paidWorld_collection:
  "transactionCollection paidWorld =
     [\<lparr>DocId = OID [101, 83, 241, 0, 17, 34, 51, 68, 85, 0, 0, 2],
       DocCartItems = CartItems widgetOrder, DocCustomer = Customer widgetOrder,
       DocStatus = ''paid'', DocCreatedAt = 1700000000000000000,
       DocUpdatedAt = 1700000060123000000, DocTotalPrice = 1499\<rparr>]"
proof -
  have dist: "distinct (map DocId (transactionCollection oneOrderWorld))"
    by (simp add: oneOrderWorld_collection)
  have h2: "(0::nat) < length (transactionCollection oneOrderWorld)"
    by (simp add: oneOrderWorld_collection)
  have h3: "DocId (transactionCollection oneOrderWorld ! 0)
       = OID (fst (ObjectIDFromHex ''6553f1001122334455000002''))"
    by (simp add: oneOrderWorld_collection widget_id DocId_encodeDoc)
  have h4: "storeErr laterEnv = None"
    by (simp add: laterEnv_def steadyEnv_def)
  have t: "bsonTime (timeNow laterEnv 0) = 1700000060123000000"
    by (simp add: laterEnv_def bsonTime_def)
  have d: "transactionCollection oneOrderWorld =
      [\<lparr>DocId = OID [101, 83, 241, 0, 17, 34, 51, 68, 85, 0, 0, 2],
       DocCartItems = CartItems widgetOrder, DocCustomer = Customer widgetOrder,
       DocStatus = ''awaiting payment'', DocCreatedAt = 1700000000000000000,
       DocUpdatedAt = 1700000000000000000, DocTotalPrice = 1499\<rparr>]"
    by (simp add: oneOrderWorld_collection encodeDoc_def stamp_fields bsonTime_def
        steadyEnv_def calculateTotalPrice_def widgetOrder_def)
  from pay_found [OF dist h2 h3 h4] show ?thesis
    by (simp add: paidWorld_def t d)
qed

lemma paidWorld_reachable: "reachable paidWorld"
proof -
  have "driverOK laterEnv"
    by code_simp
  with oneOrderWorld_reachable
  have "reachable (snd (handle wholeCents (GetPay ''6553f1001122334455000002'') laterEnv oneOrderWorld))"
    by (rule reachable.step)
  then show ?thesis by (simp add: paidWorld_def)
qed

theorem status_never_leaves_paid_witness:
  "(0::nat) < length (transactionCollection paidWorld)
   \<and> DocStatus (transactionCollection paidWorld ! 0) = ''paid''
   \<and> reachable paidWorld \<and> storeErr laterEnv = None
   \<and> DocId (transactionCollection paidWorld ! 0)
       = OID (fst (ObjectIDFromHex ''6553f1001122334455000002''))
   \<and> DocStatus (transactionCollection
        (snd (handle wholeCents (GetPay ''6553f1001122334455000002'') laterEnv paidWorld)) ! 0) = ''paid''
   \<and> status (fst (pay wholeCents ''6553f1001122334455000002'' laterEnv paidWorld)) = 200
   \<and> Status (Decode ((transactionCollection paidWorld ! 0)
        \<lparr>DocUpdatedAt := bsonTime (timeNow laterEnv 0)\<rparr>)) = ''paid''"
proof -
  have h1: "(0::nat) < length (transactionCollection paidWorld)"
    and h2: "DocStatus (transactionCollection paidWorld ! 0) = ''paid''"
    and h3: "DocId (transactionCollection paidWorld ! 0)
       = OID (fst (ObjectIDFromHex ''6553f1001122334455000002''))"
    by (simp_all add: paidWorld_collection widget_id)
  have h4: "storeErr laterEnv = None"
    by (simp add: laterEnv_def steadyEnv_def)
  from status_never_leaves_paid
    [where isFinite = wholeCents and w = paidWorld
       and req = "GetPay ''6553f1001122334455000002''" and e = laterEnv
       and j = 0 and transactionID = "''6553f1001122334455000002''"]
    h1 h2 h3 h4 paidWorld_reachable
  show ?thesis
    by (simp add: JSON_status StatusOK_def)
qed

subsection \<open>Listing\<close>

lemma cursorLoop_append: "cursorLoop transactions ds = transactions @ map Decode ds"
  by (induction ds arbitrary: transactions) simp_all

text \<open>
  Claim C8. When the store answers and no stored transaction has the customer id, the
  listing answers with status 200 and the empty sequence, and changes nothing.
\<close>

theorem getTransactions_none:
  assumes "storeErr e = None"
    and "\<forall>d\<in>set (transactionCollection w). CustomerID (DocCustomer d) \<noteq> customerId"
  shows "getTransactions isFinite customerId e w =
           (\<lparr>status = 200, payload = TransactionsBody []\<rparr>, w)"
proof -
  from assms(2)
  have "filter (\<lambda>d. CustomerID (DocCustomer d) = customerId) (transactionCollection w) = []"
    by (simp add: filter_empty_conv)
  with assms(1) have "Find e customerId (transactionCollection w) = Inr []"
    by (simp add: Find_def split: option.splits)
  then show ?thesis
    by (simp add: getTransactions_def JSON_def StatusOK_def)
qed

theorem getTransactions_none_witness:
  "storeErr steadyEnv = None
   \<and> CustomerID (DocCustomer (transactionCollection oneOrderWorld ! 0)) = ''c1''
   \<and> length (transactionCollection oneOrderWorld) = 1
   \<and> getTransactions wholeCents ''c2'' steadyEnv oneOrderWorld
       = (\<lparr>status = 200, payload = TransactionsBody []\<rparr>, oneOrderWorld)"
proof -
  have h1: "storeErr steadyEnv = None"
    by (simp add: steadyEnv_def)
  have c: "CustomerID (DocCustomer (transactionCollection oneOrderWorld ! 0)) = ''c1''"
    and l: "length (transactionCollection oneOrderWorld) = 1"
    by (simp_all add: oneOrderWorld_collection encodeDoc_def stamp_fields widgetOrder_def)
  have h2: "\<forall>d\<in>set (transactionCollection oneOrderWorld). CustomerID (DocCustomer d) \<noteq> ''c2''"
    by (simp add: oneOrderWorld_collection encodeDoc_def stamp_fields widgetOrder_def)
  from getTransactions_none [OF h1 h2] h1 c l show ?thesis by simp
qed

subsection \<open>Payment intake\<close>

lemma decodeMembers_error:
  "snd (decodeMembers foldName ms p err) = None \<longleftrightarrow>
     err = None
     \<and> (\<forall>(k, v)\<in>set ms. fieldFor foldName k \<noteq> None \<longrightarrow> v = JNull \<or> (\<exists>s. v = JString s))"
proof (induction ms arbitrary: p err)
  case Nil
  then show ?case by simp
next
  case (Cons m ms)
  obtain k v where m: "m = (k, v)" by (cases m)
  show ?case
  proof (cases "fieldFor foldName k")
    case None
    then show ?thesis by (simp add: m Cons.IH)
  next
    case (Some n)
    then show ?thesis
      by (cases v) (auto simp: m Cons.IH split: option.splits)
  qed
qed

lemma ShouldBindJSON_accepts:
  "(\<exists>paymentForm. ShouldBindJSON foldName reqBody = Inr paymentForm) \<longleftrightarrow>
     firstValue reqBody = Some JNull
     \<or> (\<exists>ms. firstValue reqBody = Some (JObject ms)
           \<and> (\<forall>(k, v)\<in>set ms. fieldFor foldName k \<noteq> None \<longrightarrow>
                 v = JNull \<or> (\<exists>s. v = JString s)))"
proof (cases "firstValue reqBody")
  case None
  then show ?thesis by (simp add: ShouldBindJSON_def)
next
  case (Some j)
  show ?thesis
  proof (cases j)
    case (JObject ms)
    let ?zero = "\<lparr>CardNumber = [], ExpirationDate = [], CVV = [], HolderName = [], Address = []\<rparr>"
    have "(\<exists>paymentForm. ShouldBindJSON foldName reqBody = Inr paymentForm)
        \<longleftrightarrow> snd (decodeMembers foldName ms ?zero None) = None"
      by (cases "decodeMembers foldName ms ?zero None")
        (auto simp: Some JObject ShouldBindJSON_def split: option.splits)
    then show ?thesis
      by (simp add: Some JObject decodeMembers_error)
  qed (simp_all add: Some ShouldBindJSON_def)
qed

lemma ShouldBindJSON_afterValue:
  "ShouldBindJSON foldName (reqBody\<lparr>afterValue := s\<rparr>) = ShouldBindJSON foldName reqBody"
  by (simp add: ShouldBindJSON_def)

lemma processPayment_status:
  "status (fst (processPayment isFinite bound w)) = StatusOK
     \<longleftrightarrow> (\<exists>paymentForm. bound = Inr paymentForm)"
  by (cases bound)
    (simp_all add: processPayment_def JSON_status StatusOK_def StatusBadRequest_def)

lemma processPayment_bound:
  "processPayment isFinite (Inr paymentForm) w
     = (\<lparr>status = 200, payload = SuccessBody True\<rparr>, w)"
  by (simp add: processPayment_def JSON_SuccessBody StatusOK_def)

text \<open>
  Claim C9, as stated, fails: the body \<^verbatim>\<open>{}\<close>, which has none of the five fields, is
  bound without error and answered with status 200.
\<close>

theorem processPayment_unvalidated_fields:
  "processPayment wholeCents (ShouldBindJSON asciiFold emptyObject) emptyWorld
     = (\<lparr>status = 200, payload = SuccessBody True\<rparr>, emptyWorld)
   \<and> \<not> specShapeValid emptyObject"
  by (simp add: processPayment_bound ShouldBindJSON_def specShapeValid_def
      paymentFormFields_def emptyObject_def)

text \<open>
  Claim C9, amended. The payment form is accepted exactly when the body begins with a
  JSON value that is null or an object in which every member that names one of the five
  fields holds a string or null. No field has to be there, and what follows the first
  value plays no part. Once bound, every form is answered with status 200 and
  \<open>success: true\<close>, and the request changes nothing.
\<close>

theorem processPayment_success_iff:
  "(status (fst (processPayment isFinite (ShouldBindJSON foldName reqBody) w)) = StatusOK
      \<longleftrightarrow> firstValue reqBody = Some JNull
          \<or> (\<exists>ms. firstValue reqBody = Some (JObject ms)
                \<and> (\<forall>(k, v)\<in>set ms. fieldFor foldName k \<noteq> None \<longrightarrow>
                      v = JNull \<or> (\<exists>s. v = JString s))))
   \<and> ShouldBindJSON foldName (reqBody\<lparr>afterValue := s\<rparr>) = ShouldBindJSON foldName reqBody
   \<and> processPayment isFinite (Inr paymentForm) w
       = (\<lparr>status = 200, payload = SuccessBody True\<rparr>, w)
   \<and> snd (processPayment isFinite (ShouldBindJSON foldName reqBody) w) = w"
  by (simp add: processPayment_status ShouldBindJSON_accepts processPayment_world
      ShouldBindJSON_afterValue processPayment_bound)

lemma fieldFor_partialForm:
  "fieldFor asciiFold ''CVV'' = Some ''cvv''" "fieldFor asciiFold ''memo'' = None"
  by code_simp+

theorem processPayment_success_iff_witness:
  "fieldFor asciiFold ''CVV'' = Some ''cvv'' \<and> fieldFor asciiFold ''memo'' = None
   \<and> afterValue partialForm = '' xyz''
   \<and> status (fst (processPayment wholeCents (ShouldBindJSON asciiFold partialForm) emptyWorld))
       = StatusOK
   \<and> snd (processPayment wholeCents (ShouldBindJSON asciiFold partialForm) emptyWorld)
       = emptyWorld"
proof -
  have ok: "\<forall>(k, v)\<in>set [(''CVV'', JString ''123''), (''memo'', JArray [])].
      fieldFor asciiFold k \<noteq> None \<longrightarrow> v = JNull \<or> (\<exists>s. v = JString s)"
    by (simp add: fieldFor_partialForm)
  from processPayment_success_iff
    [where isFinite = wholeCents and foldName = asciiFold and reqBody = partialForm
       and w = emptyWorld] ok
  show ?thesis
    by (simp add: partialForm_def fieldFor_partialForm)
qed

subsection \<open>Object ids in hexadecimal\<close>

lemma hexDigit_hexChar: "n < 16 \<Longrightarrow> hexDigit (hexChar n) = Some n"
  by (auto simp: hexChar_def Let_def)

lemma length_Hex: "length (Hex bs) = 2 * length bs"
  by (induction bs) simp_all

lemma hexDecode_Hex: "\<forall>b\<in>set bs. b < 256 \<Longrightarrow> hexDecode (Hex bs) = Some bs"
proof (induction bs)
  case Nil
  then show ?case by simp
next
  case (Cons b bs)
  then have b: "b < 256" and rest: "hexDecode (Hex bs) = Some bs" by simp_all
  from b have "b div 16 < 16" "b mod 16 < 16" by simp_all
  then have "hexDigit (hexChar (b div 16)) = Some (b div 16)"
    and "hexDigit (hexChar (b mod 16)) = Some (b mod 16)"
    by (simp_all only: hexDigit_hexChar)
  then show ?case
    by (simp add: rest del: hexDigit.simps)
qed

lemma ObjectIDFromHex_Hex:
  "length bs = 12 \<Longrightarrow> \<forall>b\<in>set bs. b < 256 \<Longrightarrow> ObjectIDFromHex (Hex bs) = (bs, True)"
  by (simp add: ObjectIDFromHex_def length_Hex hexDecode_Hex)

lemma listed_id_resolves:
  assumes "DocId d = OID bs" and "length bs = 12" and "\<forall>b\<in>set bs. b < 256"
  shows "OID (fst (ObjectIDFromHex (ID (Decode d)))) = DocId d"
  using assms by (simp add: Decode_def ObjectIDFromHex_Hex)

end
